theory Spec2Isabelle
  imports Main
begin

section \<open>Python strings and the regular expressions of the parser\<close>

text \<open>
  Python strings are modelled as \<open>string\<close>, a list of 8-bit characters: the model covers
  text whose code points are below 256. Every exception of the source is a value of
  \<open>py_error\<close>, and a function that can raise returns \<open>py_error + 'a\<close>.
  A \<open>GithubException\<close> carries whether its \<open>data\<close> is a dictionary, which is what the
  handlers that read \<open>e.data.get('message')\<close> depend on.
\<close>

datatype py_error =
    InvalidVersion
  | InvalidSpecifier
  | AttributeError
  | RequestException
  | GithubException bool
  | OtherException

text \<open>\<open>str.isspace\<close> on one character, which is also the class \<open>\s\<close> of \<open>re\<close>.\<close>

definition py_isspace :: "char \<Rightarrow> bool" where
  "py_isspace c \<longleftrightarrow>
     c \<in> {CHR 0x09, CHR 0x0A, CHR 0x0B, CHR 0x0C, CHR 0x0D,
          CHR 0x1C, CHR 0x1D, CHR 0x1E, CHR 0x1F, CHR 0x20, CHR 0x85, CHR 0xA0}"

text \<open>\<open>s.lstrip(chars)\<close>, \<open>s.strip(chars)\<close> and \<open>s.strip()\<close>.\<close>

definition lstrip_chars :: "string \<Rightarrow> string \<Rightarrow> string" where
  "lstrip_chars chars s = dropWhile (\<lambda>c. c \<in> set chars) s"

definition strip_chars :: "string \<Rightarrow> string \<Rightarrow> string" where
  "strip_chars chars s =
     rev (dropWhile (\<lambda>c. c \<in> set chars) (rev (dropWhile (\<lambda>c. c \<in> set chars) s)))"

definition py_strip :: "string \<Rightarrow> string" where
  "py_strip s = rev (dropWhile py_isspace (rev (dropWhile py_isspace s)))"

text \<open>\<open>s.startswith(p)\<close> and \<open>s.startswith((p1, p2, ...))\<close>.\<close>

definition startswith :: "string \<Rightarrow> string \<Rightarrow> bool" where
  "startswith s p \<longleftrightarrow> take (length p) s = p"

definition startswith_any :: "string \<Rightarrow> string list \<Rightarrow> bool" where
  "startswith_any s ps \<longleftrightarrow> (\<exists>p \<in> set ps. startswith s p)"

text \<open>\<open>s.split(d)\<close> for a one-character separator.\<close>

fun split_on :: "char \<Rightarrow> string \<Rightarrow> string list" where
  "split_on d [] = [[]]"
| "split_on d (c # cs) =
     (if c = d then [] # split_on d cs
      else (case split_on d cs of
              [] \<Rightarrow> [[c]]
            | l # ls \<Rightarrow> (c # l) # ls))"

text \<open>The character class \<open>[<>=!~]\<close>.\<close>

definition is_cmp :: "char \<Rightarrow> bool" where
  "is_cmp c \<longleftrightarrow> c \<in> {CHR ''<'', CHR ''>'', CHR ''='', CHR ''!'', CHR ''~''}"

text \<open>
  \<open>re.match(r"([^<>=!~\s]+)([<>=!~].+)?", req)\<close>. Group 1 is greedy, so it is the longest
  run of characters that are neither comparison symbols nor white space, and the match
  fails when that run is empty. Group 2 is optional: it needs a comparison symbol followed
  by at least one character other than a newline, and then takes every character up to the
  next newline. Since group 2 may be absent, the engine never shortens group 1.
  The result is \<open>None\<close> when there is no match, else the two groups.
\<close>

definition re_match_requirement :: "string \<Rightarrow> (string \<times> string option) option" where
  "re_match_requirement req =
     (let g1 = takeWhile (\<lambda>c. \<not> is_cmp c \<and> \<not> py_isspace c) req;
          rest = dropWhile (\<lambda>c. \<not> is_cmp c \<and> \<not> py_isspace c) req
      in if g1 = [] then None
         else Some (g1,
           (case rest of
              [] \<Rightarrow> None
            | c # cs \<Rightarrow>
                if is_cmp c \<and> takeWhile (\<lambda>d. d \<noteq> CHR 0x0A) cs \<noteq> []
                then Some (c # takeWhile (\<lambda>d. d \<noteq> CHR 0x0A) cs)
                else None)))"

text \<open>\<open>re.match(r"([<>=!~]+)", spec)\<close>: group 1, or \<open>None\<close> when there is no match.\<close>

definition re_match_operator :: "string \<Rightarrow> string option" where
  "re_match_operator spec =
     (let g = takeWhile is_cmp spec in if g = [] then None else Some g)"

section \<open>The requirement parser\<close>

record requirement =
  name :: string
  spec :: string
  operator :: string

definition sentinel :: requirement where
  "sentinel = \<lparr>name = [], spec = [], operator = []\<rparr>"

definition excluded_prefixes :: "string list" where
  "excluded_prefixes = [''--'', ''-e'', ''from'', ''import'', ''def'', ''os'', ''sys'']"

text \<open>
  \<open>parse_requirement\<close>. Calling \<open>.group(1)\<close> on a failed match of the operator pattern
  would raise \<open>AttributeError\<close>; the branch is kept, and \<open>parse_requirement_total\<close> shows
  that it is never taken.
\<close>

definition parse_requirement :: "string \<Rightarrow> py_error + requirement" where
  "parse_requirement req0 =
     (let req = strip_chars [CHR 0x27, CHR 0x22] req0 in
      if startswith_any req excluded_prefixes then Inr sentinel
      else
        (case re_match_requirement req of
           Some (g1, g2) \<Rightarrow>
             (let nm = py_strip g1;
                  sp = py_strip (case g2 of None \<Rightarrow> [] | Some g \<Rightarrow> g)
              in if sp \<noteq> []
                 then (case re_match_operator sp of
                         None \<Rightarrow> Inl AttributeError
                       | Some opr \<Rightarrow> Inr \<lparr>name = nm, spec = sp, operator = opr\<rparr>)
                 else Inr \<lparr>name = nm, spec = sp, operator = []\<rparr>)
         | None \<Rightarrow> Inr \<lparr>name = py_strip req, spec = [], operator = []\<rparr>))"

text \<open>\<open>update_requirement\<close>: the f-strings are concatenations.\<close>

definition update_requirement :: "string \<Rightarrow> string \<Rightarrow> py_error + string" where
  "update_requirement req latest_version =
     (case parse_requirement req of
        Inl e \<Rightarrow> Inl e
      | Inr parsed \<Rightarrow>
          if spec parsed \<noteq> [] then
            (if operator parsed = ''~='' then Inr (name parsed @ ''~='' @ latest_version)
             else Inr (name parsed @ operator parsed @ latest_version))
          else Inr (name parsed @ ''=='' @ latest_version))"

section \<open>The update decision\<close>

text \<open>
  The \<open>packaging\<close> library is not part of the repository, so \<open>check_update_needed\<close> takes
  the five operations it uses as a parameter. \<open>None\<close> stands for the library's exception:
  \<open>InvalidSpecifier\<close> from \<open>SpecifierSet\<close>, \<open>InvalidVersion\<close> from \<open>version_parse\<close> and
  from \<open>contains\<close> (which parses the version string it is given). This is the interface
  of the releases of the library in which \<open>version.parse\<close> raises on an invalid version.
  \<open>version_gt\<close> is \<open>>\<close> on versions and \<open>release\<close> the tuple \<open>.release\<close>.
\<close>

record ('v, 's) packaging =
  SpecifierSet :: "string \<Rightarrow> 's option"
  version_parse :: "string \<Rightarrow> 'v option"
  version_gt :: "'v \<Rightarrow> 'v \<Rightarrow> bool"
  release :: "'v \<Rightarrow> nat list"
  contains :: "'s \<Rightarrow> string \<Rightarrow> bool option"

text \<open>The body of the \<open>try\<close> block of \<open>check_update_needed\<close>.\<close>

definition check_update_needed_try ::
  "('v, 's) packaging \<Rightarrow> string \<Rightarrow> string \<Rightarrow> py_error + bool" where
  "check_update_needed_try P current_spec latest_version =
     (case SpecifierSet P current_spec of
        None \<Rightarrow> Inl InvalidSpecifier
      | Some sp \<Rightarrow>
          (case version_parse P latest_version of
             None \<Rightarrow> Inl InvalidVersion
           | Some latest \<Rightarrow>
               if startswith current_spec ''~='' then
                 (case version_parse P (drop 2 current_spec) of
                    None \<Rightarrow> Inl InvalidVersion
                  | Some current \<Rightarrow>
                      Inr (version_gt P latest current \<and>
                           take 2 (release P latest) = take 2 (release P current)))
               else
                 (case contains P sp latest_version of
                    None \<Rightarrow> Inl InvalidVersion
                  | Some b \<Rightarrow> Inr (\<not> b))))"

text \<open>
  \<open>check_update_needed\<close>: the handler catches \<open>InvalidVersion\<close> and \<open>InvalidSpecifier\<close>;
  any other exception would leave the function.
\<close>

definition check_update_needed ::
  "('v, 's) packaging \<Rightarrow> string \<Rightarrow> string \<Rightarrow> py_error + bool" where
  "check_update_needed P current_spec latest_version =
     (if current_spec = [] then Inr True
      else
        (case check_update_needed_try P current_spec latest_version of
           Inl InvalidVersion \<Rightarrow> Inr True
         | Inl InvalidSpecifier \<Rightarrow> Inr True
         | Inl e \<Rightarrow> Inl e
         | Inr b \<Rightarrow> Inr b))"

subsection \<open>The library on final releases\<close>

text \<open>
  For the concrete cases, \<open>pep440\<close> instantiates the library's operations on the versions
  that are final releases, \<open>N(.N)*\<close>, and on the specifier sets whose clauses are one of
  \<open>~= == != <= >= < >\<close> followed at once by such a version. This is a model of
  \<open>packaging\<close> on that fragment only: outside it (epochs, pre-, post- and development
  releases, local versions, wildcards, \<open>===\<close>, inner white space) the model reports
  an invalid string where the library may accept it, and no theorem below evaluates
  \<open>pep440\<close> there.
\<close>

definition is_digit :: "char \<Rightarrow> bool" where
  "is_digit c \<longleftrightarrow> c \<in> set ''0123456789''"

definition parse_nat :: "string \<Rightarrow> nat option" where
  "parse_nat s =
     (if s \<noteq> [] \<and> list_all is_digit s
      then Some (foldl (\<lambda>n c. 10 * n + (of_char c - 48)) 0 s)
      else None)"

definition parse_release :: "string \<Rightarrow> nat list option" where
  "parse_release s = those (map parse_nat (split_on (CHR ''.'') s))"

text \<open>
  Versions compare by their key: for a final release, the release with its trailing zeros
  removed, compared as Python tuples.
\<close>

definition release_key :: "nat list \<Rightarrow> nat list" where
  "release_key r = rev (dropWhile (\<lambda>n. n = 0) (rev r))"

fun tuple_less :: "nat list \<Rightarrow> nat list \<Rightarrow> bool" where
  "tuple_less [] [] \<longleftrightarrow> False"
| "tuple_less [] (y # ys) \<longleftrightarrow> True"
| "tuple_less (x # xs) [] \<longleftrightarrow> False"
| "tuple_less (x # xs) (y # ys) \<longleftrightarrow> x < y \<or> (x = y \<and> tuple_less xs ys)"

definition release_gt :: "nat list \<Rightarrow> nat list \<Rightarrow> bool" where
  "release_gt a b \<longleftrightarrow> tuple_less (release_key b) (release_key a)"

datatype clause_op = Compatible | Equal | NotEqual | LessEq | GreaterEq | Less | Greater

definition parse_clause :: "string \<Rightarrow> (clause_op \<times> nat list) option" where
  "parse_clause s =
     (if startswith s ''~='' then
        (case parse_release (drop 2 s) of
           Some r \<Rightarrow> if 2 \<le> length r then Some (Compatible, r) else None
         | None \<Rightarrow> None)
      else if startswith s ''=='' then map_option (Pair Equal) (parse_release (drop 2 s))
      else if startswith s ''!='' then map_option (Pair NotEqual) (parse_release (drop 2 s))
      else if startswith s ''<='' then map_option (Pair LessEq) (parse_release (drop 2 s))
      else if startswith s ''>='' then map_option (Pair GreaterEq) (parse_release (drop 2 s))
      else if startswith s ''<'' then map_option (Pair Less) (parse_release (drop 1 s))
      else if startswith s ''>'' then map_option (Pair Greater) (parse_release (drop 1 s))
      else None)"

text \<open>
  \<open>SpecifierSet(s)\<close> splits at the commas, strips each part and drops the empty ones.
\<close>

definition parse_specifier_set :: "string \<Rightarrow> (clause_op \<times> nat list) list option" where
  "parse_specifier_set s =
     those (map parse_clause
       (filter (\<lambda>c. c \<noteq> []) (map py_strip (split_on (CHR '','') s))))"

text \<open>
  A clause on a final release. \<open>~=V\<close> is \<open>>=V\<close> together with the prefix match
  \<open>==P.*\<close>, where \<open>P\<close> is \<open>V\<close> without its last segment and the candidate is padded
  with zeros to the length of \<open>P\<close>.
\<close>

fun clause_contains :: "clause_op \<times> nat list \<Rightarrow> nat list \<Rightarrow> bool" where
  "clause_contains (Compatible, r) v \<longleftrightarrow>
     \<not> release_gt r v
     \<and> take (length r - 1) (v @ replicate (length r - 1 - length v) 0) = butlast r"
| "clause_contains (Equal, r) v \<longleftrightarrow> release_key v = release_key r"
| "clause_contains (NotEqual, r) v \<longleftrightarrow> release_key v \<noteq> release_key r"
| "clause_contains (LessEq, r) v \<longleftrightarrow> \<not> release_gt v r"
| "clause_contains (GreaterEq, r) v \<longleftrightarrow> \<not> release_gt r v"
| "clause_contains (Less, r) v \<longleftrightarrow> release_gt r v"
| "clause_contains (Greater, r) v \<longleftrightarrow> release_gt v r"

definition pep440 :: "(nat list, (clause_op \<times> nat list) list) packaging" where
  "pep440 =
     \<lparr>SpecifierSet = parse_specifier_set,
      version_parse = parse_release,
      version_gt = release_gt,
      release = (\<lambda>v. v),
      contains = (\<lambda>ss item.
        map_option (\<lambda>v. list_all (\<lambda>c. clause_contains c v) ss) (parse_release item))\<rparr>"

section \<open>External calls\<close>

text \<open>
  The registry and the hosting platform are outside the program. Their answers are
  parameters of the model, and every call made to them is recorded as an event, in order.
\<close>

datatype event =
    HttpGet string
  | ListContents
  | GetContents string
  | GetBranchContents string string
  | UpdateFile string string string
  | CreatePull string string
  | CreateBranch string
  | CreateFork
  | GetRepo string
  | Prompt string

text \<open>
  \<open>get_latest_version\<close>. The parameter \<open>http\<close> gives, for a URL, what the \<open>try\<close> block
  ends with: the string \<open>data["info"]["version"]\<close>, or the exception raised on the way.
  Only \<open>RequestException\<close> is caught.
\<close>

definition standard_libs :: "string list" where
  "standard_libs = [''sys'', ''os'', ''re'', ''time'', ''logging'', ''json'', ''requests'',
     ''from'', ''import'', ''def'']"

definition get_latest_version ::
  "(string \<Rightarrow> py_error + string) \<Rightarrow> string \<Rightarrow> (py_error + string option) \<times> event list" where
  "get_latest_version http package_name =
     (if package_name = [] then (Inr None, [])
      else if package_name \<in> set standard_libs then (Inr None, [])
      else
        (let url = ''https://pypi.org/pypi/'' @ package_name @ ''/json'' in
         (case http url of
            Inr latest_version \<Rightarrow> Inr (Some latest_version)
          | Inl RequestException \<Rightarrow> Inr None
          | Inl e \<Rightarrow> Inl e,
          [HttpGet url])))"

section \<open>Reading the manifests\<close>

text \<open>
  \<open>re.findall(r"^[^#\n]+", content, re.MULTILINE)\<close>: \<open>^\<close> matches at the start of the text
  and after each newline only, and a match ends at a \<open>#\<close>, at a newline or at the end, none
  of which is the start of a line. So there is at most one match for each line: the line up
  to its first \<open>#\<close>, when that is not empty.
\<close>

definition re_findall_lines :: "string \<Rightarrow> string list" where
  "re_findall_lines content =
     filter (\<lambda>m. m \<noteq> [])
       (map (takeWhile (\<lambda>c. c \<noteq> CHR ''#'')) (split_on (CHR 0x0A) content))"

text \<open>
  \<open>re.search(r"install_requires\s*=\s*\[(.*?)\]", content, re.DOTALL)\<close>, group 1.
  \<open>match_install_requires\<close> is the match anchored at the start of its argument: the
  white space runs are followed by a character that is not white space, so they are taken
  whole, and the lazy group ends at the first \<open>]\<close>. \<open>re_search_install_requires\<close> tries
  each position from the left.
\<close>

definition match_install_requires :: "string \<Rightarrow> string option" where
  "match_install_requires s =
     (if startswith s ''install_requires'' then
        (case dropWhile py_isspace (drop 16 s) of
           [] \<Rightarrow> None
         | c # r \<Rightarrow>
             if c = CHR ''='' then
               (case dropWhile py_isspace r of
                  [] \<Rightarrow> None
                | d # r' \<Rightarrow>
                    if d = CHR ''['' \<and> CHR '']'' \<in> set r'
                    then Some (takeWhile (\<lambda>x. x \<noteq> CHR '']'') r')
                    else None)
             else None)
      else None)"

fun re_search_install_requires :: "string \<Rightarrow> string option" where
  "re_search_install_requires [] = None"
| "re_search_install_requires (c # cs) =
     (case match_install_requires (c # cs) of
        Some g \<Rightarrow> Some g
      | None \<Rightarrow> re_search_install_requires cs)"

text \<open>
  \<open>re.findall(r"'([^']+)'", text)\<close>: at a quote, the group is the run up to the next quote;
  the match needs that run to be non-empty and the closing quote to be there, and the
  search goes on after the closing quote. Otherwise it goes on at the next character.
\<close>

function re_findall_quoted :: "string \<Rightarrow> string list" where
  "re_findall_quoted [] = []"
| "re_findall_quoted (c # cs) =
     (if c = CHR 0x27 \<and> takeWhile (\<lambda>x. x \<noteq> CHR 0x27) cs \<noteq> []
         \<and> dropWhile (\<lambda>x. x \<noteq> CHR 0x27) cs \<noteq> []
      then takeWhile (\<lambda>x. x \<noteq> CHR 0x27) cs
             # re_findall_quoted (tl (dropWhile (\<lambda>x. x \<noteq> CHR 0x27) cs))
      else re_findall_quoted cs)"
  by pat_completeness auto
termination
proof (relation "measure length")
  fix c :: char and cs :: string
  have "length (tl (dropWhile (\<lambda>x. x \<noteq> CHR 0x27) cs)) \<le> length cs"
    using length_dropWhile_le [of "\<lambda>x. x \<noteq> CHR 0x27" cs] by simp
  then show "(tl (dropWhile (\<lambda>x. x \<noteq> CHR 0x27) cs), c # cs) \<in> measure length"
    by simp
qed simp_all

section \<open>Scanning a repository\<close>

record version_update =
  old :: string
  new :: string

text \<open>
  A repository of the hosting platform, as the answers to the calls the program makes,
  each with the exception it may raise:
  \<^item> \<open>listing\<close>: the paths of \<open>repo.get_contents("")\<close>;
  \<^item> \<open>read_file path\<close>: the text \<open>repo.get_contents(path).decoded_content.decode()\<close>;
  \<^item> \<open>read_branch_file path branch\<close>: the same on a branch, with the file's \<open>sha\<close>;
  \<^item> \<open>update_file path message content sha branch\<close>: the write;
  \<^item> \<open>create_branch_ref branch\<close>: \<open>get_branch\<close> of the default branch and then
    \<open>create_git_ref\<close>;
  \<^item> \<open>create_pull head base\<close>: the \<open>html_url\<close> of the new pull request.

  Two repository objects are compared by \<open>repo_url\<close>.
\<close>

record repository =
  repo_url :: string
  owner_login :: string
  default_branch :: string
  push_permission :: bool
  listing :: "py_error + string list"
  read_file :: "string \<Rightarrow> py_error + string"
  read_branch_file :: "string \<Rightarrow> string \<Rightarrow> py_error + string \<times> string"
  update_file :: "string \<Rightarrow> string \<Rightarrow> string \<Rightarrow> string \<Rightarrow> string \<Rightarrow> py_error + unit"
  create_branch_ref :: "string \<Rightarrow> py_error + unit"
  create_pull :: "string \<Rightarrow> string \<Rightarrow> py_error + string"

definition file_paths :: "string list" where
  "file_paths = [''requirements.txt'', ''requirements.lock'', ''setup.py'', ''Pipfile'']"

text \<open>
  One turn of the loop over the requirements of a file in \<open>check_dependencies\<close>: the
  update to append, if any. \<open>if latest_version\<close> is false for \<open>None\<close> and for the empty
  string.
\<close>

definition check_requirement ::
  "('v, 's) packaging \<Rightarrow> (string \<Rightarrow> py_error + string) \<Rightarrow> string
     \<Rightarrow> (py_error + version_update option) \<times> event list" where
  "check_requirement P http req =
     (case parse_requirement req of
        Inl e \<Rightarrow> (Inl e, [])
      | Inr parsed_req \<Rightarrow>
          (case get_latest_version http (name parsed_req) of
             (Inl e, ev) \<Rightarrow> (Inl e, ev)
           | (Inr None, ev) \<Rightarrow> (Inr None, ev)
           | (Inr (Some latest_version), ev) \<Rightarrow>
               if latest_version = [] then (Inr None, ev)
               else
                 (let current_version = lstrip_chars ''=~<>!'' (spec parsed_req) in
                  (case check_update_needed P current_version latest_version of
                     Inl e \<Rightarrow> (Inl e, ev)
                   | Inr needed \<Rightarrow>
                       if needed then
                         (case update_requirement req latest_version of
                            Inl e \<Rightarrow> (Inl e, ev)
                          | Inr updated_req \<Rightarrow>
                              if req \<noteq> updated_req
                              then (Inr (Some \<lparr>old = req, new = updated_req\<rparr>), ev)
                              else (Inr None, ev))
                       else (Inr None, ev)))))"

text \<open>The loop over the requirements: \<open>file_updates\<close> is the list built so far.\<close>

fun scan_requirements ::
  "('v, 's) packaging \<Rightarrow> (string \<Rightarrow> py_error + string) \<Rightarrow> string list
     \<Rightarrow> version_update list \<Rightarrow> (py_error + version_update list) \<times> event list" where
  "scan_requirements P http [] file_updates = (Inr file_updates, [])"
| "scan_requirements P http (req # reqs) file_updates =
     (case check_requirement P http req of
        (Inl e, ev) \<Rightarrow> (Inl e, ev)
      | (Inr u, ev) \<Rightarrow>
          (case scan_requirements P http reqs
                  (case u of None \<Rightarrow> file_updates | Some x \<Rightarrow> file_updates @ [x]) of
             (r, ev') \<Rightarrow> (r, ev @ ev')))"

text \<open>
  The \<open>try\<close> block for one manifest up to the end of the inner loop: \<open>Inr None\<close> is the
  \<open>continue\<close> for a file that is not listed, \<open>Inr (Some file_updates)\<close> the end of the
  loop, \<open>Inl e\<close> an exception, which either handler logs.
\<close>

definition scan_file ::
  "('v, 's) packaging \<Rightarrow> (string \<Rightarrow> py_error + string) \<Rightarrow> repository \<Rightarrow> string
     \<Rightarrow> (py_error + version_update list option) \<times> event list" where
  "scan_file P http repo file_path =
     (case listing repo of
        Inl e \<Rightarrow> (Inl e, [ListContents])
      | Inr file_names \<Rightarrow>
          if file_path \<notin> set file_names then (Inr None, [ListContents])
          else
            (case read_file repo file_path of
               Inl e \<Rightarrow> (Inl e, [ListContents, GetContents file_path])
             | Inr content \<Rightarrow>
                 (let requirements =
                        (if file_path = ''setup.py'' then
                           (case re_search_install_requires content of
                              Some g \<Rightarrow> re_findall_quoted g
                            | None \<Rightarrow> [])
                         else re_findall_lines content)
                  in (case scan_requirements P http requirements [] of
                        (Inl e, ev) \<Rightarrow> (Inl e, [ListContents, GetContents file_path] @ ev)
                      | (Inr file_updates, ev) \<Rightarrow>
                          (Inr (Some file_updates),
                           [ListContents, GetContents file_path] @ ev)))))"

text \<open>
  The update map is a Python dictionary, which keeps the order of insertion:
  an association list, with \<open>d[k] = v\<close> as \<open>dict_set\<close>.
\<close>

fun dict_set :: "('k \<times> 'a) list \<Rightarrow> 'k \<Rightarrow> 'a \<Rightarrow> ('k \<times> 'a) list" where
  "dict_set [] k v = [(k, v)]"
| "dict_set ((k', v') # d) k v =
     (if k' = k then (k, v) # d else (k', v') # dict_set d k v)"

text \<open>The loop over \<open>file_paths\<close>, and \<open>check_dependencies\<close>.\<close>

fun check_files ::
  "('v, 's) packaging \<Rightarrow> (string \<Rightarrow> py_error + string) \<Rightarrow> repository \<Rightarrow> string list
     \<Rightarrow> (string \<times> version_update list) list
     \<Rightarrow> (string \<times> version_update list) list \<times> event list" where
  "check_files P http repo [] updates = (updates, [])"
| "check_files P http repo (file_path # rest) updates =
     (case scan_file P http repo file_path of
        (r, ev) \<Rightarrow>
          (case check_files P http repo rest
                  (case r of
                     Inr (Some file_updates) \<Rightarrow>
                       if file_updates \<noteq> [] then dict_set updates file_path file_updates
                       else updates
                   | _ \<Rightarrow> updates) of
             (res, ev') \<Rightarrow> (res, ev @ ev')))"

definition check_dependencies ::
  "('v, 's) packaging \<Rightarrow> (string \<Rightarrow> py_error + string) \<Rightarrow> repository
     \<Rightarrow> (string \<times> version_update list) list \<times> event list" where
  "check_dependencies P http repo = check_files P http repo file_paths []"

section \<open>Review and publication\<close>

text \<open>
  \<open>s.lower()\<close> on the characters below 256, and the test
  \<open>input(...).lower().strip() == "y"\<close>.
\<close>

definition py_lower :: "char \<Rightarrow> char" where
  "py_lower c =
     (let n = (of_char c :: nat)
      in if (65 \<le> n \<and> n \<le> 90) \<or> (192 \<le> n \<and> n \<le> 222 \<and> n \<noteq> 215)
         then char_of (n + 32) else c)"

definition approves :: "string \<Rightarrow> bool" where
  "approves answer \<longleftrightarrow> py_strip (map py_lower answer) = ''y''"

text \<open>
  The operator is the list of the lines still to be read from the standard input; \<open>input\<close>
  takes the first one, and raises (\<open>EOFError\<close>, here \<open>OtherException\<close>) when there is none.

  \<open>review_changes\<close>: the inner loop over the updates of one file, the loop over the
  files, and the function.
\<close>

fun review_file_updates ::
  "version_update list \<Rightarrow> string list \<Rightarrow> version_update list
     \<Rightarrow> (py_error + version_update list) \<times> string list \<times> event list" where
  "review_file_updates [] answers approved = (Inr approved, answers, [])"
| "review_file_updates (u # us) answers approved =
     (case answers of
        [] \<Rightarrow> (Inl OtherException, [], [Prompt ''Approve this change? (y/n): ''])
      | a # rest \<Rightarrow>
          (case review_file_updates us rest (if approves a then approved @ [u] else approved) of
             (r, answers', ev) \<Rightarrow>
               (r, answers', Prompt ''Approve this change? (y/n): '' # ev)))"

fun review_files ::
  "(string \<times> version_update list) list \<Rightarrow> string list
     \<Rightarrow> (string \<times> version_update list) list
     \<Rightarrow> (py_error + (string \<times> version_update list) list) \<times> string list \<times> event list" where
  "review_files [] answers approved_updates = (Inr approved_updates, answers, [])"
| "review_files ((file_path, file_updates) # rest) answers approved_updates =
     (case review_file_updates file_updates answers [] of
        (Inl e, answers', ev) \<Rightarrow> (Inl e, answers', ev)
      | (Inr approved_file_updates, answers', ev) \<Rightarrow>
          (case review_files rest answers'
                  (if approved_file_updates \<noteq> []
                   then dict_set approved_updates file_path approved_file_updates
                   else approved_updates) of
             (r, answers'', ev') \<Rightarrow> (r, answers'', ev @ ev')))"

definition review_changes ::
  "(string \<times> version_update list) list \<Rightarrow> string list
     \<Rightarrow> (py_error + (string \<times> version_update list) list) \<times> string list \<times> event list" where
  "review_changes updates answers = review_files updates answers []"

text \<open>
  \<open>s.replace(pat, repl)\<close>: every occurrence from the left, without overlap; with an
  empty \<open>pat\<close>, \<open>repl\<close> is put before each character and at the end.
\<close>

function py_replace :: "string \<Rightarrow> string \<Rightarrow> string \<Rightarrow> string" where
  "py_replace pat repl [] = (if pat = [] then repl else [])"
| "py_replace pat repl (c # cs) =
     (if pat = [] then repl @ c # py_replace pat repl cs
      else if startswith (c # cs) pat
        then repl @ py_replace pat repl (drop (length pat) (c # cs))
        else c # py_replace pat repl cs)"
  by pat_completeness auto
termination
  by (relation "measure (\<lambda>(pat, repl, s). length s)") auto

text \<open>
  The inner \<open>try\<close> of \<open>create_pull_request\<close> for one file: how the block ends (an
  exception is caught and logged by its handler, whatever it is) and the calls made.
\<close>

definition publish_file ::
  "repository \<Rightarrow> string \<Rightarrow> string \<times> version_update list
     \<Rightarrow> (py_error + unit) \<times> event list" where
  "publish_file source_repo branch_name entry =
     (case entry of (file_path, file_updates) \<Rightarrow>
        (case read_branch_file source_repo file_path branch_name of
           Inl e \<Rightarrow> (Inl e, [GetBranchContents file_path branch_name])
         | Inr (content, sha) \<Rightarrow>
             (let content' = foldl (\<lambda>c u. py_replace (old u) (new u) c) content file_updates
              in (update_file source_repo file_path
                    (''Update dependencies in '' @ file_path) content' sha branch_name,
                  [GetBranchContents file_path branch_name,
                   UpdateFile file_path content' branch_name]))))"

text \<open>
  The two handlers that end \<open>create_pull_request\<close> and \<open>check_and_update_repo\<close>:
  \<^verbatim>\<open>
  except GithubException as e:
      logger.error(f"GitHub API error: {e.status} - {e.data.get('message')}")
      return None
  except Exception as e:
      logger.error(f"Unexpected error: {str(e)}")
      return None
  \<close>
  The first one reads \<open>e.data.get\<close>: when \<open>data\<close> is not a dictionary this raises
  \<open>AttributeError\<close> inside the handler, and that exception leaves the function.
\<close>

definition log_and_return_none :: "py_error \<Rightarrow> py_error + 'a option" where
  "log_and_return_none e =
     (case e of
        GithubException data_is_dict \<Rightarrow> if data_is_dict then Inr None else Inl AttributeError
      | _ \<Rightarrow> Inr None)"

text \<open>
  \<open>create_pull_request\<close>: the URL of the pull request or \<open>None\<close>, or the exception that
  leaves the function, and the calls made. The loop over the files goes on after a file
  whose block ended with an exception, and the pull request is created after the loop.
\<close>

definition create_pull_request ::
  "repository \<Rightarrow> repository \<Rightarrow> string \<Rightarrow> (string \<times> version_update list) list
     \<Rightarrow> (py_error + string option) \<times> event list" where
  "create_pull_request original_repo source_repo branch_name updates =
     (if updates = [] then (Inr None, [])
      else
        (let ev = concat (map (\<lambda>entry. snd (publish_file source_repo branch_name entry))
                            updates);
             head = (if repo_url source_repo \<noteq> repo_url original_repo
                     then owner_login source_repo @ '':'' @ branch_name
                     else branch_name);
             base = default_branch original_repo
         in (case create_pull original_repo head base of
               Inl e \<Rightarrow> log_and_return_none e
             | Inr html_url \<Rightarrow> Inr (Some html_url),
             ev @ [CreatePull head base])))"

section \<open>The run for one repository\<close>

text \<open>
  The platform beyond one repository: \<open>get_repo name\<close>, and \<open>create_fork repo\<close> for
  \<open>get_user().create_fork(repo)\<close>.
\<close>

record github =
  get_repo :: "string \<Rightarrow> py_error + repository"
  create_fork :: "repository \<Rightarrow> py_error + repository"

text \<open>
  The loop of \<open>check_and_update_repo\<close> that shows each approved file: \<open>False\<close> stands for
  its \<open>return None\<close>, on a refusal and on any exception.
\<close>

fun confirm_files ::
  "repository \<Rightarrow> (string \<times> version_update list) list \<Rightarrow> string list
     \<Rightarrow> bool \<times> string list \<times> event list" where
  "confirm_files repo [] answers = (True, answers, [])"
| "confirm_files repo ((file_path, file_updates) # rest) answers =
     (case read_file repo file_path of
        Inl e \<Rightarrow> (False, answers, [GetContents file_path])
      | Inr content \<Rightarrow>
          (case answers of
             [] \<Rightarrow>
               (False, [],
                [GetContents file_path, Prompt ''Approve this file for publishing? (y/n): ''])
           | a # answers' \<Rightarrow>
               if \<not> approves a then
                 (False, answers',
                  [GetContents file_path, Prompt ''Approve this file for publishing? (y/n): ''])
               else
                 (case confirm_files repo rest answers' of
                    (ok, answers'', ev) \<Rightarrow>
                      (ok, answers'',
                       [GetContents file_path,
                        Prompt ''Approve this file for publishing? (y/n): ''] @ ev))))"

text \<open>\<open>create_branch\<close> logs a \<open>GithubException\<close> and raises it again.\<close>

definition create_branch :: "repository \<Rightarrow> string \<Rightarrow> (py_error + unit) \<times> event list" where
  "create_branch repo branch_name =
     (create_branch_ref repo branch_name, [CreateBranch branch_name])"

text \<open>
  \<open>create_fork_and_branch\<close> returns \<open>None\<close> on a \<open>GithubException\<close>; its handler
  formats the exception itself and does not read \<open>data\<close>.
\<close>

definition create_fork_and_branch ::
  "github \<Rightarrow> repository \<Rightarrow> string \<Rightarrow> (py_error + repository option) \<times> event list" where
  "create_fork_and_branch gh repo branch_name =
     (case create_fork gh repo of
        Inl (GithubException d) \<Rightarrow> (Inr None, [CreateFork])
      | Inl e \<Rightarrow> (Inl e, [CreateFork])
      | Inr fork \<Rightarrow>
          (case create_branch_ref fork branch_name of
             Inl (GithubException d) \<Rightarrow> (Inr None, [CreateFork, CreateBranch branch_name])
           | Inl e \<Rightarrow> (Inl e, [CreateFork, CreateBranch branch_name])
           | Inr u \<Rightarrow> (Inr (Some fork), [CreateFork, CreateBranch branch_name])))"

text \<open>
  \<open>check_and_update_repo\<close>: the URL of the pull request or \<open>None\<close>, or the exception
  that leaves the function; the input left; and the calls made. \<open>timestamp\<close> is
  \<open>str(int(time.time()))\<close>. An exception that is not handled further in goes to the two
  outer handlers, \<open>log_and_return_none\<close>.
\<close>

definition check_and_update_repo ::
  "('v, 's) packaging \<Rightarrow> (string \<Rightarrow> py_error + string) \<Rightarrow> github \<Rightarrow> string \<Rightarrow> string
     \<Rightarrow> string list \<Rightarrow> (py_error + string option) \<times> string list \<times> event list" where
  "check_and_update_repo P http gh timestamp repo_name answers =
     (case get_repo gh repo_name of
        Inl e \<Rightarrow> (log_and_return_none e, answers, [GetRepo repo_name])
      | Inr original_repo \<Rightarrow>
          (case check_dependencies P http original_repo of
             (updates, ev1) \<Rightarrow>
               if updates = [] then (Inr None, answers, GetRepo repo_name # ev1)
               else
                 (case review_changes updates answers of
                    (Inl e, answers1, ev2) \<Rightarrow>
                      (log_and_return_none e, answers1, GetRepo repo_name # ev1 @ ev2)
                  | (Inr approved_updates, answers1, ev2) \<Rightarrow>
                      if approved_updates = [] then
                        (Inr None, answers1, GetRepo repo_name # ev1 @ ev2)
                      else
                        (let branch_name = ''update-dependencies-'' @ timestamp in
                         (case confirm_files original_repo approved_updates answers1 of
                            (ok, answers2, ev3) \<Rightarrow>
                              if \<not> ok then
                                (Inr None, answers2, GetRepo repo_name # ev1 @ ev2 @ ev3)
                              else if push_permission original_repo then
                                (case create_branch original_repo branch_name of
                                   (Inl e, ev4) \<Rightarrow>
                                     (log_and_return_none e, answers2,
                                      GetRepo repo_name # ev1 @ ev2 @ ev3 @ ev4)
                                 | (Inr u, ev4) \<Rightarrow>
                                     (case create_pull_request original_repo original_repo
                                             branch_name approved_updates of
                                        (Inl e, ev5) \<Rightarrow>
                                          (log_and_return_none e, answers2,
                                           GetRepo repo_name # ev1 @ ev2 @ ev3 @ ev4 @ ev5)
                                      | (Inr pr_url, ev5) \<Rightarrow>
                                          (Inr pr_url, answers2,
                                           GetRepo repo_name # ev1 @ ev2 @ ev3 @ ev4 @ ev5)))
                              else
                                (case create_fork_and_branch gh original_repo branch_name of
                                   (Inl e, ev4) \<Rightarrow>
                                     (log_and_return_none e, answers2,
                                      GetRepo repo_name # ev1 @ ev2 @ ev3 @ ev4)
                                 | (Inr None, ev4) \<Rightarrow>
                                     (Inr None, answers2,
                                      GetRepo repo_name # ev1 @ ev2 @ ev3 @ ev4)
                                 | (Inr (Some source_repo), ev4) \<Rightarrow>
                                     (case create_pull_request original_repo source_repo
                                             branch_name approved_updates of
                                        (Inl e, ev5) \<Rightarrow>
                                          (log_and_return_none e, answers2,
                                           GetRepo repo_name # ev1 @ ev2 @ ev3 @ ev4 @ ev5)
                                      | (Inr pr_url, ev5) \<Rightarrow>
                                          (Inr pr_url, answers2,
                                           GetRepo repo_name # ev1 @ ev2 @ ev3 @ ev4 @ ev5))))))))"

text \<open>The calls that write a file or open a pull request.\<close>

fun is_write :: "event \<Rightarrow> bool" where
  "is_write (UpdateFile p c b) = True"
| "is_write e = False"

fun is_pull :: "event \<Rightarrow> bool" where
  "is_pull (CreatePull h b) = True"
| "is_pull e = False"

subsection \<open>A repository for the concrete cases\<close>

text \<open>
  \<open>demo_repo text\<close> lists a \<open>README.md\<close> and a \<open>requirements.txt\<close> holding \<open>text\<close>;
  the bot may push to it, and every call succeeds unless a case below changes a field.
  \<open>registry pkg v\<close> knows the one package \<open>pkg\<close>, at version \<open>v\<close>, and answers every
  other request with an HTTP error.
\<close>

definition demo_repo :: "string \<Rightarrow> repository" where
  "demo_repo text =
     \<lparr>repo_url = ''https://api.github.com/repos/username/repo1'',
      owner_login = ''username'',
      default_branch = ''main'',
      push_permission = True,
      listing = Inr [''README.md'', ''requirements.txt''],
      read_file = (\<lambda>p.
        if p = ''requirements.txt'' then Inr text else Inl (GithubException True)),
      read_branch_file = (\<lambda>p b.
        if p = ''requirements.txt'' then Inr (text, ''sha0'')
        else Inl (GithubException True)),
      update_file = (\<lambda>p m c s b. Inr ()),
      create_branch_ref = (\<lambda>b. Inr ()),
      create_pull = (\<lambda>h b. Inr ''https://github.com/username/repo1/pull/1'')\<rparr>"

definition demo_github :: "repository \<Rightarrow> github" where
  "demo_github repo =
     \<lparr>get_repo = (\<lambda>n.
        if n = ''username/repo1'' then Inr repo else Inl (GithubException True)),
      create_fork = (\<lambda>r. Inl (GithubException True))\<rparr>"

definition registry :: "string \<Rightarrow> string \<Rightarrow> string \<Rightarrow> py_error + string" where
  "registry pkg v url =
     (if url = ''https://pypi.org/pypi/'' @ pkg @ ''/json'' then Inr v
      else Inl RequestException)"

text \<open>
  \<open>stale_repo\<close> is \<open>demo_repo\<close> holding \<open>flask==2.0.0\<close>, where every write is refused.
\<close>

definition failing_write ::
  "string \<Rightarrow> string \<Rightarrow> string \<Rightarrow> string \<Rightarrow> string \<Rightarrow> py_error + unit" where
  "failing_write p m c s b = Inl (GithubException True)"

definition stale_repo :: repository where
  "stale_repo = (demo_repo ''flask==2.0.0'')\<lparr>update_file := failing_write\<rparr>"

section \<open>Properties of the parser\<close>

text \<open>Stripping characters that do not occur in a prefix keeps the prefix.\<close>

lemma dropWhile_hd_id: "s \<noteq> [] \<Longrightarrow> \<not> P (hd s) \<Longrightarrow> dropWhile P s = s"
  by (cases s) auto

lemma strip_chars_keeps_prefix:
  assumes "startswith s p" and "p \<noteq> []" and "set p \<inter> set chars = {}"
  shows "startswith (strip_chars chars s) p"
proof -
  from assms(1) obtain t where s: "s = p @ t"
    unfolding startswith_def by (metis append_take_drop_id)
  let ?Q = "\<lambda>c. c \<in> set chars"
  have nQ: "\<forall>c \<in> set p. \<not> ?Q c" using assms(3) by auto
  have hdp: "\<not> ?Q (hd p)" using assms(2) nQ by simp
  have d1: "dropWhile ?Q s = s"
    using s assms(2) hdp by (cases p) auto
  have lastp: "\<not> ?Q (hd (rev p))" using assms(2) nQ by (simp add: hd_rev)
  have "\<exists>u. dropWhile ?Q (rev t @ rev p) = u @ rev p"
  proof (cases "\<forall>x \<in> set (rev t). ?Q x")
    case True
    then have "dropWhile ?Q (rev t @ rev p) = dropWhile ?Q (rev p)"
      by (simp add: dropWhile_append)
    also have "\<dots> = rev p" using lastp assms(2) by (intro dropWhile_hd_id) auto
    finally show ?thesis by simp
  next
    case False
    then have "dropWhile ?Q (rev t @ rev p) = dropWhile ?Q (rev t) @ rev p"
      by (auto simp add: dropWhile_append)
    then show ?thesis by blast
  qed
  then obtain u where "dropWhile ?Q (rev s) = u @ rev p" using s by auto
  then have "strip_chars chars s = p @ rev u"
    unfolding strip_chars_def d1 by simp
  then show ?thesis by (simp add: startswith_def)
qed

lemma excluded_prefix_sentinel:
  assumes "p \<in> set excluded_prefixes" and "startswith line p"
  shows "parse_requirement line = Inr sentinel"
proof -
  have "p \<noteq> []" and "set p \<inter> set [CHR 0x27, CHR 0x22] = {}"
    using assms(1) by (auto simp: excluded_prefixes_def)
  then have "startswith (strip_chars [CHR 0x27, CHR 0x22] line) p"
    using assms(2) strip_chars_keeps_prefix by blast
  then have "startswith_any (strip_chars [CHR 0x27, CHR 0x22] line) excluded_prefixes"
    using assms(1) unfolding startswith_any_def by blast
  then show ?thesis by (simp add: parse_requirement_def)
qed

lemma py_strip_keeps_hd:
  assumes "s \<noteq> []" and "\<not> py_isspace (hd s)"
  shows "py_strip s \<noteq> [] \<and> hd (py_strip s) = hd s"
proof -
  obtain c t where s: "s = c # t" using assms(1) by (cases s) auto
  have c: "\<not> py_isspace c" using assms(2) s by simp
  have "dropWhile py_isspace (rev t @ [c]) \<noteq> [] \<and> last (dropWhile py_isspace (rev t @ [c])) = c"
    using c by (simp add: dropWhile_append)
  then show ?thesis
    unfolding py_strip_def using s c by (simp add: hd_rev)
qed

lemma is_cmp_not_space: "is_cmp c \<Longrightarrow> \<not> py_isspace c"
  by (auto simp: is_cmp_def py_isspace_def)

lemma operator_pattern_matches: "is_cmp c \<Longrightarrow> \<exists>g. re_match_operator (py_strip (c # cs)) = Some g \<and> py_strip (c # cs) \<noteq> []"
proof -
  assume a: "is_cmp c"
  have "py_strip (c # cs) \<noteq> [] \<and> hd (py_strip (c # cs)) = c"
    using py_strip_keeps_hd [of "c # cs"] is_cmp_not_space [OF a] by simp
  then obtain u where "py_strip (c # cs) = c # u" by (cases "py_strip (c # cs)") auto
  then show ?thesis using a by (simp add: re_match_operator_def)
qed

text \<open>
  The four ways \<open>parse_requirement\<close> returns; the \<open>AttributeError\<close> branch is not among
  them.
\<close>

lemma parse_requirement_cases:
  obtains (excluded) "startswith_any (strip_chars [CHR 0x27, CHR 0x22] req) excluded_prefixes"
      "parse_requirement req = Inr sentinel"
  | (nomatch) "re_match_requirement (strip_chars [CHR 0x27, CHR 0x22] req) = None"
      "parse_requirement req = Inr \<lparr>name = py_strip (strip_chars [CHR 0x27, CHR 0x22] req), spec = [], operator = []\<rparr>"
  | (bare) g1 where "re_match_requirement (strip_chars [CHR 0x27, CHR 0x22] req) = Some (g1, None)"
      "parse_requirement req = Inr \<lparr>name = py_strip g1, spec = [], operator = []\<rparr>"
  | (spec) g1 g opr where "re_match_requirement (strip_chars [CHR 0x27, CHR 0x22] req) = Some (g1, Some g)"
      "py_strip g \<noteq> []" "re_match_operator (py_strip g) = Some opr"
      "parse_requirement req = Inr \<lparr>name = py_strip g1, spec = py_strip g, operator = opr\<rparr>"
proof (cases "startswith_any (strip_chars [CHR 0x27, CHR 0x22] req) excluded_prefixes")
  case True
  then show ?thesis using excluded by (simp add: parse_requirement_def)
next
  case False
  let ?r = "strip_chars [CHR 0x27, CHR 0x22] req"
  show ?thesis
  proof (cases "re_match_requirement ?r")
    case None
    then show ?thesis using False nomatch by (simp add: parse_requirement_def)
  next
    case (Some a)
    obtain g1 g2 where a: "a = (g1, g2)" by (cases a)
    show ?thesis
    proof (cases g2)
      case None
      then show ?thesis using False Some a bare by (simp add: parse_requirement_def py_strip_def)
    next
      case (Some g)
      from \<open>re_match_requirement ?r = Some a\<close> a Some
      obtain c cs where "g = c # cs" "is_cmp c"
        unfolding re_match_requirement_def Let_def
        by (auto split: if_splits list.splits)
      with operator_pattern_matches [of c cs] obtain opr where "re_match_operator (py_strip g) = Some opr" "py_strip g \<noteq> []"
        by auto
      then show ?thesis using False \<open>re_match_requirement ?r = Some a\<close> a Some spec
        by (simp add: parse_requirement_def)
    qed
  qed
qed

lemma parse_requirement_total: "\<exists>p. parse_requirement req = Inr p"
  by (cases req rule: parse_requirement_cases) auto

lemma operator_needs_spec:
  "parse_requirement req = Inr p \<Longrightarrow> spec p = [] \<Longrightarrow> operator p = []"
  by (cases req rule: parse_requirement_cases) (auto simp: sentinel_def)

text \<open>The prefixes of \<open>parse_requirement\<close> do not include \<open>#\<close>.\<close>

lemma comment_line_name:
  assumes "startswith line ''#''"
  shows "\<exists>r. parse_requirement line = Inr r \<and> startswith (name r) ''#''"
proof -
  let ?req = "strip_chars [CHR 0x27, CHR 0x22] line"
  have "startswith ?req ''#''"
    using assms by (intro strip_chars_keeps_prefix) auto
  then obtain t where req: "?req = CHR ''#'' # t"
    by (cases ?req) (auto simp: startswith_def)
  have nex: "\<not> startswith_any ?req excluded_prefixes"
    by (auto simp: req startswith_any_def startswith_def excluded_prefixes_def)
  have ok: "\<not> is_cmp (CHR ''#'') \<and> \<not> py_isspace (CHR ''#'')"
    by (simp add: is_cmp_def py_isspace_def)
  have g1: "\<exists>g. takeWhile (\<lambda>c. \<not> is_cmp c \<and> \<not> py_isspace c) ?req = CHR ''#'' # g"
    using ok by (simp add: req)
  have nm: "startswith (py_strip g) ''#''"
    if "re_match_requirement ?req = Some (g, g2)" for g g2
  proof -
    from that have "g = takeWhile (\<lambda>c. \<not> is_cmp c \<and> \<not> py_isspace c) ?req"
      by (auto simp: re_match_requirement_def Let_def split: if_splits)
    with g1 obtain g' where g: "g = CHR ''#'' # g'" by blast
    have "py_strip g \<noteq> [] \<and> hd (py_strip g) = CHR ''#''"
      using py_strip_keeps_hd [of g] ok g by simp
    then show ?thesis by (cases "py_strip g") (auto simp: startswith_def)
  qed
  have some: "re_match_requirement ?req \<noteq> None"
    using g1 by (auto simp: re_match_requirement_def Let_def)
  show ?thesis
  proof (cases line rule: parse_requirement_cases)
    case excluded
    then show ?thesis using nex by simp
  next
    case nomatch
    then show ?thesis using some by simp
  next
    case (bare g1)
    then show ?thesis using nm by simp
  next
    case (spec g1 g opr)
    then show ?thesis using nm by simp
  qed
qed

lemma update_requirement_render:
  "parse_requirement req = Inr p \<Longrightarrow>
     update_requirement req v = Inr (name p @ (if spec p \<noteq> [] then operator p else ''=='') @ v)"
  by (auto simp: update_requirement_def)

lemma update_requirement_compatible:
  "parse_requirement req = Inr p \<Longrightarrow> operator p = ''~='' \<Longrightarrow>
     update_requirement req v = Inr (name p @ ''~='' @ v)"
  using operator_needs_spec [of req p] by (auto simp: update_requirement_def)

section \<open>Properties of the update decision\<close>

lemma check_update_needed_returns: "\<exists>b. check_update_needed P s l = Inr b"
  by (auto simp: check_update_needed_def check_update_needed_try_def split: option.splits)




text \<open>The two containment examples of the specification.\<close>

lemma containment_examples:
  "check_update_needed pep440 ''>=1.0.0'' ''1.0.0'' = Inr False
   \<and> check_update_needed pep440 ''>=1.0.0'' ''0.9.0'' = Inr True"
  by code_simp

section \<open>Properties of the scan\<close>

lemma sentinel_no_lookup: "get_latest_version http (name sentinel) = (Inr None, [])"
  by (simp add: get_latest_version_def sentinel_def)

lemma sentinel_check_requirement:
  "parse_requirement req = Inr sentinel \<Longrightarrow> check_requirement P http req = (Inr None, [])"
  by (simp add: check_requirement_def sentinel_no_lookup)

lemma check_requirement_old_new:
  "check_requirement P http req = (Inr (Some u), ev) \<Longrightarrow> old u \<noteq> new u"
  unfolding check_requirement_def Let_def
  by (auto split: sum.splits option.splits prod.splits if_splits)

lemma scan_requirements_inv:
  assumes "\<forall>u \<in> set acc. old u \<noteq> new u"
      and "scan_requirements P http reqs acc = (Inr ups, ev)"
  shows "\<forall>u \<in> set ups. old u \<noteq> new u"
  using assms
proof (induction reqs arbitrary: acc ev)
  case Nil
  then show ?case by simp
next
  case (Cons req reqs)
  obtain r ev1 where c: "check_requirement P http req = (r, ev1)" by (cases "check_requirement P http req")
  show ?case
  proof (cases r)
    case (Inl e)
    with Cons.prems(2) c show ?thesis by simp
  next
    case (Inr uo)
    let ?acc' = "case uo of None \<Rightarrow> acc | Some x \<Rightarrow> acc @ [x]"
    obtain r2 ev2 where s2: "scan_requirements P http reqs ?acc' = (r2, ev2)"
      by (cases "scan_requirements P http reqs ?acc'")
    with Cons.prems(2) c Inr have r2: "r2 = Inr ups" by simp
    have "\<forall>u \<in> set ?acc'. old u \<noteq> new u"
      using Cons.prems(1) c Inr check_requirement_old_new [of P http req _ ev1]
      by (auto split: option.splits)
    then show ?thesis using Cons.IH s2 r2 by blast
  qed
qed

lemma scan_file_old_new:
  "scan_file P http repo fp = (Inr (Some ups), ev) \<Longrightarrow> \<forall>u \<in> set ups. old u \<noteq> new u"
  unfolding scan_file_def Let_def
  by (auto split: sum.splits if_splits prod.splits dest!: scan_requirements_inv [rotated])

lemma scan_file_listed:
  "scan_file P http repo fp = (Inr (Some ups), ev) \<Longrightarrow> \<exists>names. listing repo = Inr names \<and> fp \<in> set names"
  unfolding scan_file_def Let_def
  by (auto split: sum.splits if_splits prod.splits)

lemma set_dict_set: "set (dict_set d k v) \<subseteq> insert (k, v) (set d)"
  by (induction d) (auto split: if_splits)

text \<open>
  A property of the entries that holds for what each file contributes holds for the whole
  update map.
\<close>

lemma check_files_entries:
  assumes "\<And>fp ups ev. fp \<in> set fps \<Longrightarrow> scan_file P http repo fp = (Inr (Some ups), ev)
             \<Longrightarrow> ups \<noteq> [] \<Longrightarrow> R fp ups"
      and "\<forall>(p, ups) \<in> set acc. R p ups"
  shows "\<forall>(p, ups) \<in> set (fst (check_files P http repo fps acc)). R p ups"
  using assms
proof (induction fps arbitrary: acc)
  case Nil
  then show ?case by simp
next
  case (Cons fp fps)
  obtain r ev where sf: "scan_file P http repo fp = (r, ev)" by (cases "scan_file P http repo fp")
  let ?acc' = "case r of Inr (Some file_updates) \<Rightarrow>
                 if file_updates \<noteq> [] then dict_set acc fp file_updates else acc
               | _ \<Rightarrow> acc"
  have acc': "\<forall>(p, ups) \<in> set ?acc'. R p ups"
  proof (cases r)
    case (Inl e)
    then show ?thesis using Cons.prems(2) by simp
  next
    case (Inr o1)
    show ?thesis
    proof (cases o1)
      case None
      then show ?thesis using Inr Cons.prems(2) by simp
    next
      case (Some ups)
      show ?thesis
      proof (cases "ups = []")
        case True
        then show ?thesis using Inr Some Cons.prems(2) by simp
      next
        case False
        have "R fp ups" using Cons.prems(1) [of fp ups ev] sf Inr Some False by simp
        then show ?thesis using Inr Some False Cons.prems(2) set_dict_set [of acc fp ups]
          by auto
      qed
    qed
  qed
  have "\<forall>(p, ups) \<in> set (fst (check_files P http repo fps ?acc')). R p ups"
    using Cons.IH [of ?acc'] Cons.prems(1) acc' by simp
  then show ?case using sf by (simp split: prod.splits)
qed

lemma entries_nonempty: "\<forall>(p, ups) \<in> set (fst (check_dependencies P http repo)). ups \<noteq> []"
  unfolding check_dependencies_def
  by (rule check_files_entries) auto

lemma entries_listed: "\<forall>(p, ups) \<in> set (fst (check_dependencies P http repo)). \<exists>names. listing repo = Inr names \<and> p \<in> set names"
  unfolding check_dependencies_def
  by (rule check_files_entries) (auto dest: scan_file_listed)

lemma foo_scan:
  "fst (check_dependencies pep440 (registry ''foo'' ''2.0.0'') (demo_repo ''foo>=1.0.0''))
       = [(''requirements.txt'', [\<lparr>old = ''foo>=1.0.0'', new = ''foo>=2.0.0''\<rparr>])]"
  by code_simp

lemma oscrypto_scan:
  "check_dependencies pep440 (registry ''oscrypto'' ''1.3.0'') (demo_repo ''oscrypto==1.0'')
     = ([], [ListContents, GetContents ''requirements.txt'', ListContents, ListContents,
             ListContents])"
  by code_simp

lemma noop_rewrite_suppressed:
  "check_update_needed pep440 (lstrip_chars ''=~<>!'' ''>=1.0.0'') ''1.0.0'' = Inr True
   \<and> update_requirement ''foo>=1.0.0'' ''1.0.0'' = Inr ''foo>=1.0.0''
   \<and> fst (check_dependencies pep440 (registry ''foo'' ''1.0.0'') (demo_repo ''foo>=1.0.0'')) = []"
  by code_simp

section \<open>Properties of the publication\<close>

lemma publish_file_events_indep:
  "snd (publish_file (src\<lparr>update_file := f\<rparr>) b entry) = snd (publish_file src b entry)"
  by (auto simp: publish_file_def Let_def split: prod.splits sum.splits)

lemma create_pull_request_ignores_write_result: "create_pull_request orig (src\<lparr>update_file := f\<rparr>) b ups = create_pull_request orig src b ups"
  by (simp add: create_pull_request_def publish_file_events_indep)

lemma publish_no_pull: "filter is_pull (snd (publish_file src b entry)) = []"
  by (auto simp: publish_file_def Let_def split: prod.splits sum.splits)

lemma create_pull_request_one_pull: "ups \<noteq> [] \<Longrightarrow> filter is_pull (snd (create_pull_request orig src b ups)) =
   [CreatePull (if repo_url src \<noteq> repo_url orig then owner_login src @ '':'' @ b else b) (default_branch orig)]"
  by (simp add: create_pull_request_def Let_def filter_concat publish_no_pull comp_def)

lemma create_pull_request_writes_each_file: "(p, us) \<in> set ups \<Longrightarrow> read_branch_file src p b = Inr (c, sha) \<Longrightarrow>
   UpdateFile p (foldl (\<lambda>c u. py_replace (old u) (new u) c) c us) b \<in> set (snd (create_pull_request orig src b ups))"
  by (force simp: create_pull_request_def Let_def publish_file_def)

text \<open>
  A \<open>GithubException\<close> whose \<open>data\<close> is not a dictionary, raised by \<open>create_pull\<close> or by
  \<open>get_repo\<close>, leaves the function as an \<open>AttributeError\<close> of the handler.
\<close>

lemma create_pull_handler_raises:
  "updates \<noteq> [] \<Longrightarrow>
   create_pull original_repo
       (if repo_url source_repo \<noteq> repo_url original_repo
        then owner_login source_repo @ '':'' @ branch_name else branch_name)
       (default_branch original_repo) = Inl (GithubException False) \<Longrightarrow>
   fst (create_pull_request original_repo source_repo branch_name updates) = Inl AttributeError"
  by (simp add: create_pull_request_def Let_def log_and_return_none_def)

lemma get_repo_handler_raises:
  "get_repo gh repo_name = Inl (GithubException False) \<Longrightarrow>
   fst (check_and_update_repo P http gh timestamp repo_name answers) = Inl AttributeError"
  by (simp add: check_and_update_repo_def log_and_return_none_def)

text \<open>
  The whole run on a package that is not on the list of \<open>get_latest_version\<close>: one update,
  one prompt for the change, one for the file, one branch, one write, one pull request.
\<close>

lemma flask_scenario_publishes_once:
 "check_and_update_repo pep440 (registry ''flask'' ''3.0.0'')
     (demo_github (demo_repo ''flask==2.0.0'')) ''1700000000'' ''username/repo1'' [''y'', ''y'']
   = (Inr (Some ''https://github.com/username/repo1/pull/1''), [],
      [GetRepo ''username/repo1'', ListContents, GetContents ''requirements.txt'', HttpGet ''https://pypi.org/pypi/flask/json'',
       ListContents, ListContents, ListContents,
       Prompt ''Approve this change? (y/n): '',
       GetContents ''requirements.txt'', Prompt ''Approve this file for publishing? (y/n): '',
       CreateBranch ''update-dependencies-1700000000'',
       GetBranchContents ''requirements.txt'' ''update-dependencies-1700000000'',
       UpdateFile ''requirements.txt'' ''flask==3.0.0'' ''update-dependencies-1700000000'',
       CreatePull ''update-dependencies-1700000000'' ''main''])"
  by code_simp

section \<open>The claims\<close>

text \<open>
  \<^bold>\<open>C1\<close> (the code departs from the claim). The repository declares
  \<open>requests==2.25.0\<close> in \<open>requirements.txt\<close> and the registry reports \<open>2.31.0\<close>.
  The claim expects one update, one file write and one pull request. In the code
  \<open>requests\<close> is on the list that \<open>get_latest_version\<close> skips as standard library
  modules, so the registry is never asked, \<open>check_dependencies\<close> returns the empty map,
  and the run ends with \<open>None\<close> before any prompt, write or pull request.
\<close>

theorem requests_scenario_finds_no_update:
  "get_latest_version (registry ''requests'' ''2.31.0'') ''requests'' = (Inr None, [])
   \<and> fst (check_dependencies pep440 (registry ''requests'' ''2.31.0'')
            (demo_repo ''requests==2.25.0'')) = []
   \<and> check_and_update_repo pep440 (registry ''requests'' ''2.31.0'')
        (demo_github (demo_repo ''requests==2.25.0'')) ''1700000000'' ''username/repo1''
        [''y'', ''y'']
      = (Inr None, [''y'', ''y''],
         [GetRepo ''username/repo1'', ListContents, GetContents ''requirements.txt'',
          ListContents, ListContents, ListContents])"
proof -
  have a: "get_latest_version (registry ''requests'' ''2.31.0'') ''requests'' = (Inr None, [])"
    by code_simp
  have b: "fst (check_dependencies pep440 (registry ''requests'' ''2.31.0'')
            (demo_repo ''requests==2.25.0'')) = []"
    by code_simp
  have c: "check_and_update_repo pep440 (registry ''requests'' ''2.31.0'')
        (demo_github (demo_repo ''requests==2.25.0'')) ''1700000000'' ''username/repo1''
        [''y'', ''y'']
      = (Inr None, [''y'', ''y''],
         [GetRepo ''username/repo1'', ListContents, GetContents ''requirements.txt'',
          ListContents, ListContents, ListContents])"
    by code_simp
  from a b c show ?thesis by blast
qed

text \<open>
  \<^bold>\<open>C2\<close> (the code departs from the claim). The line \<open>foo>=1.0.0\<close> with latest
  version \<open>2.0.0\<close>: the version satisfies the specifier, and \<open>check_update_needed\<close> on
  the parsed specifier answers that no update is needed. \<open>check_dependencies\<close> strips
  the operator first and passes \<open>1.0.0\<close>, which is not a specifier, so the answer is
  that an update is needed, and the update \<open>foo>=2.0.0\<close> is surfaced.
\<close>

theorem satisfied_specifier_is_still_rewritten:
  "SpecifierSet pep440 ''>=1.0.0'' = Some [(GreaterEq, [1, 0, 0])]
   \<and> contains pep440 [(GreaterEq, [1, 0, 0])] ''2.0.0'' = Some True
   \<and> check_update_needed pep440 ''>=1.0.0'' ''2.0.0'' = Inr False
   \<and> check_update_needed pep440 (lstrip_chars ''=~<>!'' ''>=1.0.0'') ''2.0.0'' = Inr True
   \<and> fst (check_dependencies pep440 (registry ''foo'' ''2.0.0'') (demo_repo ''foo>=1.0.0''))
       = [(''requirements.txt'', [\<lparr>old = ''foo>=1.0.0'', new = ''foo>=2.0.0''\<rparr>])]"
proof -
  have a: "SpecifierSet pep440 ''>=1.0.0'' = Some [(GreaterEq, [1, 0, 0])]
   \<and> contains pep440 [(GreaterEq, [1, 0, 0])] ''2.0.0'' = Some True"
    by code_simp
  have b: "check_update_needed pep440 ''>=1.0.0'' ''2.0.0'' = Inr False" by code_simp
  have c: "check_update_needed pep440 (lstrip_chars ''=~<>!'' ''>=1.0.0'') ''2.0.0'' = Inr True"
    by code_simp
  have d: "fst (check_dependencies pep440 (registry ''foo'' ''2.0.0'') (demo_repo ''foo>=1.0.0''))
       = [(''requirements.txt'', [\<lparr>old = ''foo>=1.0.0'', new = ''foo>=2.0.0''\<rparr>])]"
    by code_simp
  from a b c d show ?thesis by blast
qed

text \<open>
  \<^bold>\<open>C3\<close>, the claim as stated fails: on \<open>stale_repo\<close> the block that writes
  \<open>requirements.txt\<close> ends with the exception of the write, and
  \<open>create_pull_request\<close> still opens the pull request and returns its URL.
\<close>

theorem failed_write_still_opens_pull_request:
  "fst (publish_file stale_repo ''update-dependencies-1700000000''
          (''requirements.txt'', [\<lparr>old = ''flask==2.0.0'', new = ''flask==3.0.0''\<rparr>]))
     = Inl (GithubException True)
   \<and> create_pull_request stale_repo stale_repo ''update-dependencies-1700000000''
       [(''requirements.txt'', [\<lparr>old = ''flask==2.0.0'', new = ''flask==3.0.0''\<rparr>])]
     = (Inr (Some ''https://github.com/username/repo1/pull/1''),
        [GetBranchContents ''requirements.txt'' ''update-dependencies-1700000000'',
         UpdateFile ''requirements.txt'' ''flask==3.0.0'' ''update-dependencies-1700000000'',
         CreatePull ''update-dependencies-1700000000'' ''main''])"
proof -
  have a: "fst (publish_file stale_repo ''update-dependencies-1700000000''
          (''requirements.txt'', [\<lparr>old = ''flask==2.0.0'', new = ''flask==3.0.0''\<rparr>]))
     = Inl (GithubException True)"
    by code_simp
  have b: "create_pull_request stale_repo stale_repo ''update-dependencies-1700000000''
       [(''requirements.txt'', [\<lparr>old = ''flask==2.0.0'', new = ''flask==3.0.0''\<rparr>])]
     = (Inr (Some ''https://github.com/username/repo1/pull/1''),
        [GetBranchContents ''requirements.txt'' ''update-dependencies-1700000000'',
         UpdateFile ''requirements.txt'' ''flask==3.0.0'' ''update-dependencies-1700000000'',
         CreatePull ''update-dependencies-1700000000'' ''main''])"
    by code_simp
  from a b show ?thesis by blast
qed

text \<open>
  \<^bold>\<open>C3\<close>, amended: a failed write is logged and does not stop the publication.
  Whatever the writes return, \<open>create_pull_request\<close> returns the same result and makes
  the same calls; when there is an update to publish it makes exactly one call that
  creates the pull request; and every file of the map whose content can be read on the
  branch is written.
\<close>

theorem write_failure_does_not_stop_publication:
  "create_pull_request original_repo (source_repo\<lparr>update_file := f\<rparr>) branch_name updates
     = create_pull_request original_repo source_repo branch_name updates
   \<and> (updates \<noteq> [] \<longrightarrow>
        filter is_pull (snd (create_pull_request original_repo source_repo branch_name updates))
          = [CreatePull
               (if repo_url source_repo \<noteq> repo_url original_repo
                then owner_login source_repo @ '':'' @ branch_name else branch_name)
               (default_branch original_repo)])
   \<and> (\<forall>(file_path, file_updates) \<in> set updates. \<forall>content sha.
        read_branch_file source_repo file_path branch_name = Inr (content, sha) \<longrightarrow>
        UpdateFile file_path
            (foldl (\<lambda>c u. py_replace (old u) (new u) c) content file_updates) branch_name
          \<in> set (snd (create_pull_request original_repo source_repo branch_name updates)))"
  using create_pull_request_ignores_write_result [where orig = original_repo and src = source_repo and f = f and b = branch_name
               and ups = updates]
        create_pull_request_one_pull [where orig = original_repo and src = source_repo and b = branch_name
               and ups = updates]
        create_pull_request_writes_each_file [where orig = original_repo and src = source_repo and b = branch_name
               and ups = updates]
  by blast

text \<open>
  The amended \<open>C3\<close> on \<open>demo_repo\<close> with every write refused.
\<close>

theorem write_failure_does_not_stop_publication_witness:
  "create_pull_request (demo_repo ''flask==2.0.0'')
       ((demo_repo ''flask==2.0.0'')\<lparr>update_file := failing_write\<rparr>)
       ''update-dependencies-1700000000''
       [(''requirements.txt'', [\<lparr>old = ''flask==2.0.0'', new = ''flask==3.0.0''\<rparr>])]
     = create_pull_request (demo_repo ''flask==2.0.0'') (demo_repo ''flask==2.0.0'')
         ''update-dependencies-1700000000''
         [(''requirements.txt'', [\<lparr>old = ''flask==2.0.0'', new = ''flask==3.0.0''\<rparr>])]
   \<and> [(''requirements.txt'', [\<lparr>old = ''flask==2.0.0'', new = ''flask==3.0.0''\<rparr>])] \<noteq> []
   \<and> filter is_pull
        (snd (create_pull_request (demo_repo ''flask==2.0.0'') (demo_repo ''flask==2.0.0'')
           ''update-dependencies-1700000000''
           [(''requirements.txt'', [\<lparr>old = ''flask==2.0.0'', new = ''flask==3.0.0''\<rparr>])]))
       = [CreatePull ''update-dependencies-1700000000'' ''main'']
   \<and> read_branch_file (demo_repo ''flask==2.0.0'') ''requirements.txt''
        ''update-dependencies-1700000000'' = Inr (''flask==2.0.0'', ''sha0'')
   \<and> UpdateFile ''requirements.txt'' ''flask==3.0.0'' ''update-dependencies-1700000000''
       \<in> set (snd (create_pull_request (demo_repo ''flask==2.0.0'') (demo_repo ''flask==2.0.0'')
           ''update-dependencies-1700000000''
           [(''requirements.txt'', [\<lparr>old = ''flask==2.0.0'', new = ''flask==3.0.0''\<rparr>])]))"
proof -
  let ?D = "demo_repo ''flask==2.0.0''"
  let ?B = "''update-dependencies-1700000000''"
  let ?u = "\<lparr>old = ''flask==2.0.0'', new = ''flask==3.0.0''\<rparr>"
  let ?U = "[(''requirements.txt'', [?u])]"
  note t = write_failure_does_not_stop_publication [where original_repo = ?D and source_repo = ?D and f = failing_write
                     and branch_name = ?B and updates = ?U]
  have ne: "?U \<noteq> []" by simp
  have rd: "read_branch_file ?D ''requirements.txt'' ?B = Inr (''flask==2.0.0'', ''sha0'')"
    by (simp add: demo_repo_def)
  have hd: "(if repo_url ?D \<noteq> repo_url ?D then owner_login ?D @ '':'' @ ?B else ?B) = ?B"
    by simp
  have db: "default_branch ?D = ''main''" by (simp add: demo_repo_def)
  have rp: "foldl (\<lambda>c u. py_replace (old u) (new u) c) ''flask==2.0.0'' [?u] = ''flask==3.0.0''"
    by code_simp
  from t have a: "create_pull_request ?D (?D\<lparr>update_file := failing_write\<rparr>) ?B ?U
     = create_pull_request ?D ?D ?B ?U" by blast
  from t ne have "filter is_pull (snd (create_pull_request ?D ?D ?B ?U))
     = [CreatePull (if repo_url ?D \<noteq> repo_url ?D then owner_login ?D @ '':'' @ ?B else ?B)
          (default_branch ?D)]" by blast
  then have b: "filter is_pull (snd (create_pull_request ?D ?D ?B ?U)) = [CreatePull ?B ''main'']"
    unfolding hd db .
  from t rd have "UpdateFile ''requirements.txt''
      (foldl (\<lambda>c u. py_replace (old u) (new u) c) ''flask==2.0.0'' [?u]) ?B
        \<in> set (snd (create_pull_request ?D ?D ?B ?U))"
    by fastforce
  then have c: "UpdateFile ''requirements.txt'' ''flask==3.0.0'' ?B
        \<in> set (snd (create_pull_request ?D ?D ?B ?U))"
    unfolding rp .
  from a ne b rd c show ?thesis by blast
qed

text \<open>
  \<^bold>\<open>C4\<close>, the claim as stated fails: a line that starts with \<open>#\<close> does not parse
  to the sentinel; its name is \<open>#\<close>.
\<close>

theorem comment_line_is_not_sentinel:
  "startswith ''# comment'' ''#''
   \<and> parse_requirement ''# comment'' = Inr \<lparr>name = ''#'', spec = [], operator = []\<rparr>
   \<and> parse_requirement ''# comment'' \<noteq> Inr sentinel"
proof -
  have a: "startswith ''# comment'' ''#''" by code_simp
  have b: "parse_requirement ''# comment'' = Inr \<lparr>name = ''#'', spec = [], operator = []\<rparr>"
    by code_simp
  have c: "parse_requirement ''# comment'' \<noteq> Inr sentinel"
    unfolding b by (simp add: sentinel_def)
  from a b c show ?thesis by blast
qed

text \<open>
  \<^bold>\<open>C4\<close>, amended: every line that starts with \<open>--\<close>, \<open>-e\<close>, \<open>from\<close>,
  \<open>import\<close> or \<open>def\<close> parses to the empty-name sentinel.
\<close>

theorem control_prefix_gives_sentinel:
  "p \<in> set [''--'', ''-e'', ''from'', ''import'', ''def''] \<and> startswith line p
     \<longrightarrow> parse_requirement line = Inr sentinel"
proof
  assume "p \<in> set [''--'', ''-e'', ''from'', ''import'', ''def''] \<and> startswith line p"
  then have "p \<in> set excluded_prefixes" and "startswith line p"
    by (auto simp: excluded_prefixes_def)
  then show "parse_requirement line = Inr sentinel" by (rule excluded_prefix_sentinel)
qed

text \<open>
  The amended \<open>C4\<close> on an editable install and on an index option.
\<close>

theorem control_prefix_gives_sentinel_witness:
  "''-e'' \<in> set [''--'', ''-e'', ''from'', ''import'', ''def'']
   \<and> startswith ''-e ./local_pkg'' ''-e''
   \<and> parse_requirement ''-e ./local_pkg'' = Inr sentinel
   \<and> ''--'' \<in> set [''--'', ''-e'', ''from'', ''import'', ''def'']
   \<and> startswith ''--index-url https://pypi.org/simple'' ''--''
   \<and> parse_requirement ''--index-url https://pypi.org/simple'' = Inr sentinel"
proof -
  have h1: "''-e'' \<in> set [''--'', ''-e'', ''from'', ''import'', ''def'']
     \<and> startswith ''-e ./local_pkg'' ''-e''"
    by (simp add: startswith_def)
  have h2: "''--'' \<in> set [''--'', ''-e'', ''from'', ''import'', ''def'']
     \<and> startswith ''--index-url https://pypi.org/simple'' ''--''"
    by (simp add: startswith_def)
  from control_prefix_gives_sentinel [of "''-e''" "''-e ./local_pkg''"] h1
  have a: "parse_requirement ''-e ./local_pkg'' = Inr sentinel" by blast
  from control_prefix_gives_sentinel [of "''--''" "''--index-url https://pypi.org/simple''"] h2
  have b: "parse_requirement ''--index-url https://pypi.org/simple'' = Inr sentinel" by blast
  from h1 h2 a b show ?thesis by blast
qed






text \<open>
  \<^bold>\<open>C7\<close>: \<open>update_requirement\<close> keeps the operator of the line (\<open>>=\<close> stays
  \<open>>=\<close>, \<open>~=\<close> stays \<open>~=\<close>) and pins a line without specifier with \<open>==\<close>.
\<close>

theorem update_requirement_keeps_operator:
  "update_requirement ''foo>=1.0.0'' ''2.0.0'' = Inr ''foo>=2.0.0''
   \<and> update_requirement ''bar'' ''2.0.0'' = Inr ''bar==2.0.0''
   \<and> (parse_requirement req = Inr p \<and> operator p = ''~=''
        \<longrightarrow> update_requirement req v = Inr (name p @ ''~='' @ v))
   \<and> (parse_requirement req = Inr p \<and> spec p \<noteq> []
        \<longrightarrow> update_requirement req v = Inr (name p @ operator p @ v))
   \<and> (parse_requirement req = Inr p \<and> spec p = []
        \<longrightarrow> update_requirement req v = Inr (name p @ ''=='' @ v))"
proof -
  have a: "update_requirement ''foo>=1.0.0'' ''2.0.0'' = Inr ''foo>=2.0.0''" by code_simp
  have b: "update_requirement ''bar'' ''2.0.0'' = Inr ''bar==2.0.0''" by code_simp
  have c: "parse_requirement req = Inr p \<and> operator p = ''~=''
        \<longrightarrow> update_requirement req v = Inr (name p @ ''~='' @ v)"
    using update_requirement_compatible [of req p v] by blast
  have d: "parse_requirement req = Inr p \<and> spec p \<noteq> []
        \<longrightarrow> update_requirement req v = Inr (name p @ operator p @ v)"
    using update_requirement_render [of req p v] by simp
  have e: "parse_requirement req = Inr p \<and> spec p = []
        \<longrightarrow> update_requirement req v = Inr (name p @ ''=='' @ v)"
    using update_requirement_render [of req p v] by simp
  from a b c d e show ?thesis by blast
qed

text \<open>
  \<open>C7\<close> on a compatible release, on \<open>foo>=1.0.0\<close> and on the bare name
  \<open>bar\<close>.
\<close>

theorem update_requirement_keeps_operator_witness:
  "parse_requirement ''pkg~=1.4.2'' = Inr \<lparr>name = ''pkg'', spec = ''~=1.4.2'', operator = ''~=''\<rparr>
   \<and> operator \<lparr>name = ''pkg'', spec = ''~=1.4.2'', operator = ''~=''\<rparr> = ''~=''
   \<and> update_requirement ''pkg~=1.4.2'' ''1.5.0'' = Inr ''pkg~=1.5.0''
   \<and> parse_requirement ''foo>=1.0.0'' = Inr \<lparr>name = ''foo'', spec = ''>=1.0.0'', operator = ''>=''\<rparr>
   \<and> spec \<lparr>name = ''foo'', spec = ''>=1.0.0'', operator = ''>=''\<rparr> \<noteq> []
   \<and> update_requirement ''foo>=1.0.0'' ''2.0.0'' = Inr ''foo>=2.0.0''
   \<and> parse_requirement ''bar'' = Inr \<lparr>name = ''bar'', spec = [], operator = []\<rparr>
   \<and> spec \<lparr>name = ''bar'', spec = [], operator = []\<rparr> = []
   \<and> update_requirement ''bar'' ''2.0.0'' = Inr ''bar==2.0.0''"
proof -
  let ?p = "\<lparr>name = ''pkg'', spec = ''~=1.4.2'', operator = ''~=''\<rparr>"
  let ?q = "\<lparr>name = ''foo'', spec = ''>=1.0.0'', operator = ''>=''\<rparr>"
  let ?r = "\<lparr>name = ''bar'', spec = [], operator = []\<rparr>"
  have p: "parse_requirement ''pkg~=1.4.2'' = Inr ?p" by code_simp
  have q: "parse_requirement ''foo>=1.0.0'' = Inr ?q" by code_simp
  have r: "parse_requirement ''bar'' = Inr ?r" by code_simp
  have po: "operator ?p = ''~=''" and qs: "spec ?q \<noteq> []" and rs: "spec ?r = []" by simp_all
  from update_requirement_keeps_operator [of "''pkg~=1.4.2''" ?p "''1.5.0''"] p po
  have "update_requirement ''pkg~=1.4.2'' ''1.5.0'' = Inr (name ?p @ ''~='' @ ''1.5.0'')" by blast
  then have a: "update_requirement ''pkg~=1.4.2'' ''1.5.0'' = Inr ''pkg~=1.5.0''" by simp
  from update_requirement_keeps_operator [of "''foo>=1.0.0''" ?q "''2.0.0''"] q qs
  have "update_requirement ''foo>=1.0.0'' ''2.0.0'' = Inr (name ?q @ operator ?q @ ''2.0.0'')" by blast
  then have b: "update_requirement ''foo>=1.0.0'' ''2.0.0'' = Inr ''foo>=2.0.0''" by simp
  from update_requirement_keeps_operator [of "''bar''" ?r "''2.0.0''"] r rs
  have "update_requirement ''bar'' ''2.0.0'' = Inr (name ?r @ ''=='' @ ''2.0.0'')" by blast
  then have c: "update_requirement ''bar'' ''2.0.0'' = Inr ''bar==2.0.0''" by simp
  from p po a q qs b r rs c show ?thesis by blast
qed

text \<open>
  \<^bold>\<open>C8\<close>: every update in the map returned by \<open>check_dependencies\<close> has
  \<open>old\<close> different from \<open>new\<close>.
\<close>

theorem no_update_with_old_equal_new:
  "\<forall>(file_path, file_updates) \<in> set (fst (check_dependencies P http repo)).
     \<forall>u \<in> set file_updates. old u \<noteq> new u"
  unfolding check_dependencies_def
  by (rule check_files_entries) (auto dest: scan_file_old_new)

text \<open>
  \<open>C8\<close> on the scan of \<open>foo>=1.0.0\<close> with latest version \<open>2.0.0\<close>.
\<close>

theorem no_update_with_old_equal_new_witness:
  "(''requirements.txt'', [\<lparr>old = ''foo>=1.0.0'', new = ''foo>=2.0.0''\<rparr>])
     \<in> set (fst (check_dependencies pep440 (registry ''foo'' ''2.0.0'') (demo_repo ''foo>=1.0.0'')))
   \<and> \<lparr>old = ''foo>=1.0.0'', new = ''foo>=2.0.0''\<rparr>
       \<in> set [\<lparr>old = ''foo>=1.0.0'', new = ''foo>=2.0.0''\<rparr>]
   \<and> old \<lparr>old = ''foo>=1.0.0'', new = ''foo>=2.0.0''\<rparr>
       \<noteq> new \<lparr>old = ''foo>=1.0.0'', new = ''foo>=2.0.0''\<rparr>"
proof -
  let ?u = "\<lparr>old = ''foo>=1.0.0'', new = ''foo>=2.0.0''\<rparr>"
  let ?R = "fst (check_dependencies pep440 (registry ''foo'' ''2.0.0'') (demo_repo ''foo>=1.0.0''))"
  have m: "(''requirements.txt'', [?u]) \<in> set ?R" unfolding foo_scan by simp
  have n: "?u \<in> set [?u]" by simp
  from no_update_with_old_equal_new [of pep440 "registry ''foo'' ''2.0.0''" "demo_repo ''foo>=1.0.0''"] m n
  have "old ?u \<noteq> new ?u" by blast
  with m n show ?thesis by blast
qed

text \<open>
  \<^bold>\<open>C9\<close>: the map returned by \<open>check_dependencies\<close> holds no empty list, and a
  manifest that is not in the listing of the repository has no entry: its turn of the
  loop ends at the \<open>continue\<close>, after the listing and without an exception.
\<close>

theorem update_map_has_no_empty_or_absent_entry:
  "(\<forall>(file_path, file_updates) \<in> set (fst (check_dependencies P http repo)). file_updates \<noteq> [])
   \<and> (listing repo = Inr file_names \<and> file_path \<notin> set file_names \<longrightarrow>
        file_path \<notin> fst ` set (fst (check_dependencies P http repo))
        \<and> scan_file P http repo file_path = (Inr None, [ListContents]))"
proof (intro conjI impI)
  show "\<forall>(file_path, file_updates) \<in> set (fst (check_dependencies P http repo)). file_updates \<noteq> []"
    by (rule entries_nonempty)
next
  assume a: "listing repo = Inr file_names \<and> file_path \<notin> set file_names"
  show "file_path \<notin> fst ` set (fst (check_dependencies P http repo))"
  proof
    assume "file_path \<in> fst ` set (fst (check_dependencies P http repo))"
    then obtain ups where "(file_path, ups) \<in> set (fst (check_dependencies P http repo))"
      by auto
    with entries_listed [of P http repo] have "\<exists>names. listing repo = Inr names \<and> file_path \<in> set names"
      by blast
    with a show False by simp
  qed
next
  assume "listing repo = Inr file_names \<and> file_path \<notin> set file_names"
  then show "scan_file P http repo file_path = (Inr None, [ListContents])"
    by (simp add: scan_file_def)
qed

text \<open>
  \<open>C9\<close> on \<open>demo_repo\<close>, which lists no \<open>setup.py\<close>.
\<close>

theorem update_map_has_no_empty_or_absent_entry_witness:
  "(''requirements.txt'', [\<lparr>old = ''foo>=1.0.0'', new = ''foo>=2.0.0''\<rparr>])
     \<in> set (fst (check_dependencies pep440 (registry ''foo'' ''2.0.0'') (demo_repo ''foo>=1.0.0'')))
   \<and> [\<lparr>old = ''foo>=1.0.0'', new = ''foo>=2.0.0''\<rparr>] \<noteq> []
   \<and> listing (demo_repo ''foo>=1.0.0'') = Inr [''README.md'', ''requirements.txt'']
   \<and> ''setup.py'' \<notin> set [''README.md'', ''requirements.txt'']
   \<and> ''setup.py'' \<notin> fst ` set (fst (check_dependencies pep440 (registry ''foo'' ''2.0.0'')
                                        (demo_repo ''foo>=1.0.0'')))
   \<and> scan_file pep440 (registry ''foo'' ''2.0.0'') (demo_repo ''foo>=1.0.0'') ''setup.py''
       = (Inr None, [ListContents])"
proof -
  let ?u = "\<lparr>old = ''foo>=1.0.0'', new = ''foo>=2.0.0''\<rparr>"
  let ?H = "registry ''foo'' ''2.0.0''"
  let ?D = "demo_repo ''foo>=1.0.0''"
  note t = update_map_has_no_empty_or_absent_entry [where P = pep440 and http = ?H and repo = ?D
                    and file_names = "[''README.md'', ''requirements.txt'']"
                    and file_path = "''setup.py''"]
  have m: "(''requirements.txt'', [?u]) \<in> set (fst (check_dependencies pep440 ?H ?D))"
    unfolding foo_scan by simp
  have l: "listing ?D = Inr [''README.md'', ''requirements.txt'']" by (simp add: demo_repo_def)
  have s: "''setup.py'' \<notin> set [''README.md'', ''requirements.txt'']" by simp
  from t m have a: "[?u] \<noteq> []" by blast
  from t l s have b: "''setup.py'' \<notin> fst ` set (fst (check_dependencies pep440 ?H ?D))
     \<and> scan_file pep440 ?H ?D ''setup.py'' = (Inr None, [ListContents])" by blast
  from m a l s b show ?thesis by blast
qed

text \<open>
  \<^bold>\<open>C10\<close>: a line that begins with one of the excluded tokens, also as the
  beginning of a longer package name, parses to the sentinel; for the sentinel's empty
  name \<open>get_latest_version\<close> returns \<open>None\<close> without a request to the registry; and
  the turn of the loop for such a line makes no request and proposes no update.
\<close>

theorem excluded_token_is_never_looked_up:
  "p \<in> set [''--'', ''-e'', ''from'', ''import'', ''def'', ''os'', ''sys''] \<and> startswith line p
   \<longrightarrow> parse_requirement line = Inr sentinel
       \<and> get_latest_version http (name sentinel) = (Inr None, [])
       \<and> check_requirement P http line = (Inr None, [])"
proof
  assume "p \<in> set [''--'', ''-e'', ''from'', ''import'', ''def'', ''os'', ''sys''] \<and> startswith line p"
  then have "p \<in> set excluded_prefixes" and "startswith line p"
    by (simp_all add: excluded_prefixes_def)
  then have s: "parse_requirement line = Inr sentinel" by (rule excluded_prefix_sentinel)
  then show "parse_requirement line = Inr sentinel
       \<and> get_latest_version http (name sentinel) = (Inr None, [])
       \<and> check_requirement P http line = (Inr None, [])"
    using sentinel_no_lookup [of http] sentinel_check_requirement [of line P http] by simp
qed

text \<open>
  \<open>C10\<close> on \<open>oscrypto==1.0\<close> and on \<open>systemd-python\<close>.
\<close>

theorem excluded_token_is_never_looked_up_witness:
  "''os'' \<in> set [''--'', ''-e'', ''from'', ''import'', ''def'', ''os'', ''sys'']
   \<and> startswith ''oscrypto==1.0'' ''os''
   \<and> parse_requirement ''oscrypto==1.0'' = Inr sentinel
   \<and> check_requirement pep440 (registry ''oscrypto'' ''1.3.0'') ''oscrypto==1.0'' = (Inr None, [])
   \<and> ''sys'' \<in> set [''--'', ''-e'', ''from'', ''import'', ''def'', ''os'', ''sys'']
   \<and> startswith ''systemd-python'' ''sys''
   \<and> parse_requirement ''systemd-python'' = Inr sentinel
   \<and> check_requirement pep440 (registry ''systemd-python'' ''235'') ''systemd-python''
       = (Inr None, [])"
proof -
  have h1: "''os'' \<in> set [''--'', ''-e'', ''from'', ''import'', ''def'', ''os'', ''sys'']
   \<and> startswith ''oscrypto==1.0'' ''os''" by (simp add: startswith_def)
  have h2: "''sys'' \<in> set [''--'', ''-e'', ''from'', ''import'', ''def'', ''os'', ''sys'']
   \<and> startswith ''systemd-python'' ''sys''" by (simp add: startswith_def)
  from excluded_token_is_never_looked_up [where p = "''os''" and line = "''oscrypto==1.0''" and P = pep440
                 and http = "registry ''oscrypto'' ''1.3.0''"] h1
  have a: "parse_requirement ''oscrypto==1.0'' = Inr sentinel
   \<and> check_requirement pep440 (registry ''oscrypto'' ''1.3.0'') ''oscrypto==1.0'' = (Inr None, [])"
    by blast
  from excluded_token_is_never_looked_up [where p = "''sys''" and line = "''systemd-python''" and P = pep440
                 and http = "registry ''systemd-python'' ''235''"] h2
  have b: "parse_requirement ''systemd-python'' = Inr sentinel
   \<and> check_requirement pep440 (registry ''systemd-python'' ''235'') ''systemd-python''
       = (Inr None, [])"
    by blast
  from h1 h2 a b show ?thesis by blast
qed

end
